theory Spec2Isabelle
  imports Main
begin

section \<open>Python values\<close>

text \<open>
  A Python \<open>str\<close> is a sequence of Unicode code points; \<open>str.strip\<close> and the
  column lookup of \<open>sqlite3.Row\<close> look at code points, so a string is a list of them.
  \<open>str\<close> embeds an ASCII literal.
\<close>

type_synonym pystr = "nat list"

definition str :: "string \<Rightarrow> pystr" where
  "str s = map of_char s"

definition quote :: pystr where
  "quote = [39]"

text \<open>The code points for which \<open>str.isspace\<close> holds; \<open>strip()\<close> removes them at both ends.\<close>

definition py_isspace :: "nat \<Rightarrow> bool" where
  "py_isspace c \<longleftrightarrow>
     (9 \<le> c \<and> c \<le> 13) \<or> (28 \<le> c \<and> c \<le> 32) \<or> c = 133 \<or> c = 160 \<or> c = 5760 \<or>
     (8192 \<le> c \<and> c \<le> 8202) \<or> c = 8232 \<or> c = 8233 \<or> c = 8239 \<or> c = 8287 \<or> c = 12288"

definition strip :: "pystr \<Rightarrow> pystr" where
  "strip s = rev (dropWhile py_isspace (rev (dropWhile py_isspace s)))"

text \<open>\<open>", ".join(xs)\<close>\<close>

fun join_comma :: "pystr list \<Rightarrow> pystr" where
  "join_comma [] = []"
| "join_comma [x] = x"
| "join_comma (x # y # ys) = x @ str '', '' @ join_comma (y # ys)"

text \<open>\<open>str(i)\<close> for an integer, as an f-string formats it.\<close>

fun digits :: "nat \<Rightarrow> pystr" where
  "digits n = (if n < 10 then [48 + n] else digits (n div 10) @ [48 + n mod 10])"

declare digits.simps [simp del]

definition py_str_int :: "int \<Rightarrow> pystr" where
  "py_str_int i = (if i < 0 then 45 # digits (nat (- i)) else digits (nat i))"

text \<open>
  The values the tools return: dictionaries keep insertion order, \<open>JVal\<close> is a value
  read from the store.
\<close>

datatype 'v jv =
    JBool bool
  | JInt int
  | JStr pystr
  | JList "'v jv list"
  | JDict "(pystr \<times> 'v jv) list"
  | JVal 'v

text \<open>
  Exceptions. \<open>SqliteError m\<close> is an instance of \<open>sqlite3.Error\<close> (or a subclass) with
  \<open>str(e) = m\<close>; the handlers of the tools catch it. \<open>OtherException\<close> is anything
  else the library raises (\<open>sqlite3.Warning\<close> is not a subclass of \<open>sqlite3.Error\<close>).
\<close>

datatype exc =
    SqliteError pystr
  | ValueError pystr
  | IndexError pystr
  | TypeError pystr
  | OtherException pystr

section \<open>The sqlite3 library\<close>

text \<open>
  A row as \<open>sqlite3.Row\<close> presents it: the columns of the result in order, each with
  its name.
\<close>

type_synonym 'v row = "(pystr \<times> 'v) list"

text \<open>
  What a successful \<open>cursor.execute\<close> leaves behind: the outcome of a following
  \<open>fetchall()\<close>, \<open>cursor.rowcount\<close>, \<open>cursor.lastrowid\<close>, and the contents of the
  store as this connection now sees them (uncommitted).
\<close>

record ('db, 'v) cursor =
  fetched :: "exc + 'v row list"
  rowcount :: int
  lastrowid :: int
  new_view :: 'db

text \<open>
  The library and the database file behind it are a parameter of every tool. \<open>'db\<close> is
  the state of the database file (with whatever else decides whether a call fails).
  \<open>connect_raises\<close>: whether \<open>sqlite3.connect\<close> raises on this store;
  \<open>execute_result\<close>: what \<open>execute\<close> of a statement text with its bindings does on
  the connection's view; \<open>commit_raises\<close> and \<open>rollback_raises\<close>: given the committed
  store and the connection's view. \<open>conn.cursor()\<close> and \<open>conn.close()\<close> do not raise.
\<close>

record ('db, 'v) sqlite3 =
  connect_raises :: "'db \<Rightarrow> exc option"
  execute_result :: "pystr \<Rightarrow> 'v list \<Rightarrow> 'db \<Rightarrow> exc + ('db, 'v) cursor"
  commit_raises :: "'db \<Rightarrow> 'db \<Rightarrow> exc option"
  rollback_raises :: "'db \<Rightarrow> 'db \<Rightarrow> exc option"

datatype 'v event =
    EConnect
  | EExecute pystr "'v list"
  | EFetchall
  | ECommit
  | ERollback
  | EClose

text \<open>
  The world a tool runs in: the committed contents of the store, the number of
  connections that are open, the calls made to the library so far, and the lines
  written by \<open>logging.error\<close>.
\<close>

record ('db, 'v) world =
  store :: 'db
  open_conns :: nat
  trace :: "'v event list"
  logged :: "pystr list"

datatype 'db connection = Connection (view: 'db)

definition emit :: "'v event \<Rightarrow> ('db, 'v) world \<Rightarrow> ('db, 'v) world" where
  "emit ev w = w\<lparr>trace := trace w @ [ev]\<rparr>"

definition get_db_connection ::
  "('db, 'v) sqlite3 \<Rightarrow> ('db, 'v) world \<Rightarrow> (exc + 'db connection) \<times> ('db, 'v) world" where
  "get_db_connection sq w =
     (case connect_raises sq (store w) of
        Some e \<Rightarrow> (Inl e, emit EConnect w)
      | None \<Rightarrow> (Inr (Connection (store w)), (emit EConnect w)\<lparr>open_conns := Suc (open_conns w)\<rparr>))"

definition cursor_execute ::
  "('db, 'v) sqlite3 \<Rightarrow> pystr \<Rightarrow> 'v list \<Rightarrow> 'db connection \<Rightarrow> ('db, 'v) world \<Rightarrow>
   (exc + ('db, 'v) cursor) \<times> 'db connection \<times> ('db, 'v) world" where
  "cursor_execute sq stmt params conn w =
     (case execute_result sq stmt params (view conn) of
        Inl e \<Rightarrow> (Inl e, conn, emit (EExecute stmt params) w)
      | Inr cur \<Rightarrow> (Inr cur, Connection (new_view cur), emit (EExecute stmt params) w))"

definition cursor_fetchall ::
  "('db, 'v) cursor \<Rightarrow> ('db, 'v) world \<Rightarrow> (exc + 'v row list) \<times> ('db, 'v) world" where
  "cursor_fetchall cur w = (fetched cur, emit EFetchall w)"

definition conn_commit ::
  "('db, 'v) sqlite3 \<Rightarrow> 'db connection \<Rightarrow> ('db, 'v) world \<Rightarrow> exc option \<times> ('db, 'v) world" where
  "conn_commit sq conn w =
     (case commit_raises sq (store w) (view conn) of
        Some e \<Rightarrow> (Some e, emit ECommit w)
      | None \<Rightarrow> (None, (emit ECommit w)\<lparr>store := view conn\<rparr>))"

definition conn_rollback ::
  "('db, 'v) sqlite3 \<Rightarrow> 'db connection \<Rightarrow> ('db, 'v) world \<Rightarrow> exc option \<times> ('db, 'v) world" where
  "conn_rollback sq conn w = (rollback_raises sq (store w) (view conn), emit ERollback w)"

definition conn_close :: "'db connection \<Rightarrow> ('db, 'v) world \<Rightarrow> ('db, 'v) world" where
  "conn_close conn w = (emit EClose w)\<lparr>open_conns := open_conns w - 1\<rparr>"

definition logging_error :: "pystr \<Rightarrow> ('db, 'v) world \<Rightarrow> ('db, 'v) world" where
  "logging_error msg w = w\<lparr>logged := logged w @ [msg]\<rparr>"

type_synonym ('db, 'v) outcome = "(exc + 'v jv) \<times> ('db, 'v) world"

section \<open>delete\_data\<close>

definition delete_sql :: "pystr \<Rightarrow> pystr \<Rightarrow> pystr" where
  "delete_sql table_name condition = str ''DELETE FROM '' @ table_name @ str '' WHERE '' @ condition"

definition delete_rejected :: "'v jv" where
  "delete_rejected =
     JDict [(str ''success'', JBool False),
            (str ''message'', JStr (str ''Deletion condition cannot be empty. This is a safety measure.''))]"

definition delete_error_message :: "pystr \<Rightarrow> pystr \<Rightarrow> pystr" where
  "delete_error_message table_name m =
     str ''Error deleting data from table '' @ quote @ table_name @ quote @ str '': '' @ m"

definition delete_failed :: "pystr \<Rightarrow> pystr \<Rightarrow> 'v jv" where
  "delete_failed table_name m =
     JDict [(str ''success'', JBool False), (str ''message'', JStr (delete_error_message table_name m))]"

definition delete_succeeded :: "pystr \<Rightarrow> int \<Rightarrow> 'v jv" where
  "delete_succeeded table_name rows_deleted =
     JDict [(str ''success'', JBool True),
            (str ''message'', JStr (py_str_int rows_deleted @ str '' row(s) deleted successfully from table ''
                                      @ quote @ table_name @ quote @ str ''.'')),
            (str ''rows_deleted'', JInt rows_deleted)]"

text \<open>
  The \<open>except sqlite3.Error\<close> clause of \<open>delete_data\<close>, entered with the exception
  raised in the \<open>try\<close> body: another exception passes through; a failing
  \<open>conn.rollback()\<close> raises out of the handler.
\<close>

definition delete_data_except ::
  "('db, 'v) sqlite3 \<Rightarrow> pystr \<Rightarrow> 'db connection \<Rightarrow> exc \<Rightarrow> ('db, 'v) world \<Rightarrow> ('db, 'v) outcome" where
  "delete_data_except sq table_name conn e w =
     (case e of
        SqliteError m \<Rightarrow>
          (case conn_rollback sq conn w of
             (Some e', w1) \<Rightarrow> (Inl e', w1)
           | (None, w1) \<Rightarrow>
               (Inr (delete_failed table_name m),
                logging_error (delete_error_message table_name m) w1))
      | _ \<Rightarrow> (Inl e, w))"

text \<open>The \<open>try\<close> body of \<open>delete_data\<close> with its handler; \<open>finally\<close> follows in \<open>delete_data\<close>.\<close>

definition delete_data_try ::
  "('db, 'v) sqlite3 \<Rightarrow> pystr \<Rightarrow> pystr \<Rightarrow> 'db connection \<Rightarrow> ('db, 'v) world \<Rightarrow>
   ('db, 'v) outcome" where
  "delete_data_try sq table_name query conn w =
     (case cursor_execute sq query [] conn w of
        (Inl e, conn1, w1) \<Rightarrow> delete_data_except sq table_name conn1 e w1
      | (Inr cur, conn1, w1) \<Rightarrow>
          (case conn_commit sq conn1 w1 of
             (Some e, w2) \<Rightarrow> delete_data_except sq table_name conn1 e w2
           | (None, w2) \<Rightarrow> (Inr (delete_succeeded table_name (rowcount cur)), w2)))"

definition delete_data ::
  "('db, 'v) sqlite3 \<Rightarrow> pystr \<Rightarrow> pystr \<Rightarrow> ('db, 'v) world \<Rightarrow> ('db, 'v) outcome" where
  "delete_data sq table_name condition w =
     (if condition = [] \<or> strip condition = [] then (Inr delete_rejected, w)
      else
        (case get_db_connection sq w of
           (Inl e, w1) \<Rightarrow> (Inl e, w1)
         | (Inr conn, w1) \<Rightarrow>
             (case delete_data_try sq table_name (delete_sql table_name condition) conn w1 of
                (r, w2) \<Rightarrow> (r, conn_close conn w2))))"

section \<open>insert\_data\<close>

text \<open>A dictionary argument is the list of its items in insertion order, its keys distinct.\<close>

definition insert_sql :: "pystr \<Rightarrow> pystr list \<Rightarrow> pystr" where
  "insert_sql table_name keys =
     str ''INSERT INTO '' @ table_name @ str '' ('' @ join_comma keys @ str '') VALUES (''
       @ join_comma (map (\<lambda>_. str ''?'') keys) @ str '')''"

definition insert_rejected :: "'v jv" where
  "insert_rejected =
     JDict [(str ''success'', JBool False), (str ''message'', JStr (str ''No data provided for insertion.''))]"

definition insert_error_message :: "pystr \<Rightarrow> pystr \<Rightarrow> pystr" where
  "insert_error_message table_name m =
     str ''Error inserting data into table '' @ quote @ table_name @ quote @ str '': '' @ m"

definition insert_failed :: "pystr \<Rightarrow> pystr \<Rightarrow> 'v jv" where
  "insert_failed table_name m =
     JDict [(str ''success'', JBool False), (str ''message'', JStr (insert_error_message table_name m))]"

definition insert_succeeded :: "int \<Rightarrow> 'v jv" where
  "insert_succeeded last_row_id =
     JDict [(str ''success'', JBool True),
            (str ''message'', JStr (str ''Data inserted successfully. Row ID: '' @ py_str_int last_row_id)),
            (str ''row_id'', JInt last_row_id)]"

definition insert_data_except ::
  "('db, 'v) sqlite3 \<Rightarrow> pystr \<Rightarrow> 'db connection \<Rightarrow> exc \<Rightarrow> ('db, 'v) world \<Rightarrow> ('db, 'v) outcome" where
  "insert_data_except sq table_name conn e w =
     (case e of
        SqliteError m \<Rightarrow>
          (case conn_rollback sq conn w of
             (Some e', w1) \<Rightarrow> (Inl e', w1)
           | (None, w1) \<Rightarrow>
               (Inr (insert_failed table_name m),
                logging_error (insert_error_message table_name m) w1))
      | _ \<Rightarrow> (Inl e, w))"

definition insert_data_try ::
  "('db, 'v) sqlite3 \<Rightarrow> pystr \<Rightarrow> pystr \<Rightarrow> 'v list \<Rightarrow> 'db connection \<Rightarrow> ('db, 'v) world \<Rightarrow>
   ('db, 'v) outcome" where
  "insert_data_try sq table_name query values conn w =
     (case cursor_execute sq query values conn w of
        (Inl e, conn1, w1) \<Rightarrow> insert_data_except sq table_name conn1 e w1
      | (Inr cur, conn1, w1) \<Rightarrow>
          (case conn_commit sq conn1 w1 of
             (Some e, w2) \<Rightarrow> insert_data_except sq table_name conn1 e w2
           | (None, w2) \<Rightarrow> (Inr (insert_succeeded (lastrowid cur)), w2)))"

definition insert_data ::
  "('db, 'v) sqlite3 \<Rightarrow> pystr \<Rightarrow> (pystr \<times> 'v) list \<Rightarrow> ('db, 'v) world \<Rightarrow> ('db, 'v) outcome" where
  "insert_data sq table_name data w =
     (if data = [] then (Inr insert_rejected, w)
      else
        (case get_db_connection sq w of
           (Inl e, w1) \<Rightarrow> (Inl e, w1)
         | (Inr conn, w1) \<Rightarrow>
             (case insert_data_try sq table_name (insert_sql table_name (map fst data)) (map snd data)
                     conn w1 of
                (r, w2) \<Rightarrow> (r, conn_close conn w2))))"

section \<open>Reading rows\<close>

text \<open>\<open>row[0]\<close>: the first column, \<open>IndexError\<close> (here \<open>None\<close>) when there is none.\<close>

definition row_first :: "'v row \<Rightarrow> 'v option" where
  "row_first r = (case r of [] \<Rightarrow> None | (k, v) # _ \<Rightarrow> Some v)"

text \<open>
  \<open>row["name"]\<close>: the first column whose name matches the key, \<open>IndexError\<close> (here
  \<open>None\<close>) when there is none. Two names match when they are equal, or when both are
  pure ASCII and equal up to the case of letters.
\<close>

definition ascii_lower :: "nat \<Rightarrow> nat" where
  "ascii_lower c = (if 65 \<le> c \<and> c \<le> 90 then c + 32 else c)"

definition is_ascii :: "pystr \<Rightarrow> bool" where
  "is_ascii s = list_all (\<lambda>c. c < 128) s"

definition equal_ignore_case :: "pystr \<Rightarrow> pystr \<Rightarrow> bool" where
  "equal_ignore_case left right =
     (if left = right then True
      else if \<not> is_ascii left then False
      else if \<not> is_ascii right then False
      else map ascii_lower left = map ascii_lower right)"

fun row_getitem :: "'v row \<Rightarrow> pystr \<Rightarrow> 'v option" where
  "row_getitem [] key = None"
| "row_getitem ((k, v) # r) key =
     (if equal_ignore_case key k then Some v else row_getitem r key)"

text \<open>\<open>d[k] = v\<close> on a dictionary: an existing key keeps its place.\<close>

definition dict_set :: "(pystr \<times> 'a) list \<Rightarrow> pystr \<Rightarrow> 'a \<Rightarrow> (pystr \<times> 'a) list" where
  "dict_set d k v =
     (if k \<in> set (map fst d) then map (\<lambda>(k', v'). if k' = k then (k', v) else (k', v')) d
      else d @ [(k, v)])"

text \<open>\<open>dict(row)\<close>: for each of \<open>row.keys()\<close> in order, \<open>d[k] = row[k]\<close>.\<close>

definition dict_row :: "'v row \<Rightarrow> 'v jv" where
  "dict_row r =
     JDict (foldl (\<lambda>d k. case row_getitem r k of None \<Rightarrow> d | Some v \<Rightarrow> dict_set d k (JVal v))
              [] (map fst r))"

section \<open>query\_db\_table\<close>

definition query_sql :: "pystr \<Rightarrow> pystr \<Rightarrow> pystr \<Rightarrow> pystr" where
  "query_sql table_name columns condition =
     str ''SELECT '' @ columns @ str '' FROM '' @ table_name
       @ (if condition \<noteq> [] then str '' WHERE '' @ condition else []) @ str '';''"

definition query_error_message :: "pystr \<Rightarrow> pystr \<Rightarrow> pystr" where
  "query_error_message table_name m =
     str ''Error querying table '' @ quote @ table_name @ quote @ str '': '' @ m"

definition query_failed :: "pystr \<Rightarrow> pystr \<Rightarrow> 'v jv" where
  "query_failed table_name m =
     JList [JDict [(str ''success'', JBool False), (str ''message'', JStr (query_error_message table_name m))]]"

definition query_db_table_except :: "pystr \<Rightarrow> exc \<Rightarrow> ('db, 'v) world \<Rightarrow> ('db, 'v) outcome" where
  "query_db_table_except table_name e w =
     (case e of
        SqliteError m \<Rightarrow> (Inr (query_failed table_name m), logging_error (query_error_message table_name m) w)
      | _ \<Rightarrow> (Inl e, w))"

definition query_db_table_try ::
  "('db, 'v) sqlite3 \<Rightarrow> pystr \<Rightarrow> pystr \<Rightarrow> 'db connection \<Rightarrow> ('db, 'v) world \<Rightarrow> ('db, 'v) outcome" where
  "query_db_table_try sq table_name query conn w =
     (case cursor_execute sq query [] conn w of
        (Inl e, conn1, w1) \<Rightarrow> query_db_table_except table_name e w1
      | (Inr cur, conn1, w1) \<Rightarrow>
          (case cursor_fetchall cur w1 of
             (Inl e, w2) \<Rightarrow> query_db_table_except table_name e w2
           | (Inr rows, w2) \<Rightarrow> (Inr (JList (map dict_row rows)), w2)))"

definition query_db_table ::
  "('db, 'v) sqlite3 \<Rightarrow> pystr \<Rightarrow> pystr \<Rightarrow> pystr \<Rightarrow> ('db, 'v) world \<Rightarrow> ('db, 'v) outcome" where
  "query_db_table sq table_name columns condition w =
     (case get_db_connection sq w of
        (Inl e, w1) \<Rightarrow> (Inl e, w1)
      | (Inr conn, w1) \<Rightarrow>
          (case query_db_table_try sq table_name (query_sql table_name columns condition) conn w1 of
             (r, w2) \<Rightarrow> (r, conn_close conn w2)))"

section \<open>list\_db\_tables\<close>

definition list_tables_sql :: pystr where
  "list_tables_sql = str ''SELECT name FROM sqlite_master WHERE type='' @ quote @ str ''table'' @ quote @ str '';''"

definition list_failed :: "pystr \<Rightarrow> 'v jv" where
  "list_failed m =
     JDict [(str ''success'', JBool False), (str ''message'', JStr (str ''Error listing tables: '' @ m)),
            (str ''tables'', JList [])]"

definition list_succeeded :: "'v list \<Rightarrow> 'v jv" where
  "list_succeeded tables =
     JDict [(str ''success'', JBool True), (str ''message'', JStr (str ''Tables listed successfully.'')),
            (str ''tables'', JList (map JVal tables))]"

text \<open>The handler of \<open>list_db_tables\<close>. It does not close the connection.\<close>

definition list_db_tables_except :: "exc \<Rightarrow> ('db, 'v) world \<Rightarrow> ('db, 'v) outcome" where
  "list_db_tables_except e w =
     (case e of
        SqliteError m \<Rightarrow> (Inr (list_failed m), logging_error (str ''Error listing tables: '' @ m) w)
      | _ \<Rightarrow> (Inl e, w))"

text \<open>
  The connection is opened inside the \<open>try\<close> and closed as its last statement before
  the \<open>return\<close>; there is no \<open>finally\<close>. The parameter is not used.
\<close>

definition list_db_tables :: "('db, 'v) sqlite3 \<Rightarrow> pystr \<Rightarrow> ('db, 'v) world \<Rightarrow> ('db, 'v) outcome" where
  "list_db_tables sq dummy_param w =
     (case get_db_connection sq w of
        (Inl e, w1) \<Rightarrow> list_db_tables_except e w1
      | (Inr conn, w1) \<Rightarrow>
          (case cursor_execute sq list_tables_sql [] conn w1 of
             (Inl e, conn1, w2) \<Rightarrow> list_db_tables_except e w2
           | (Inr cur, conn1, w2) \<Rightarrow>
               (case cursor_fetchall cur w2 of
                  (Inl e, w3) \<Rightarrow> list_db_tables_except e w3
                | (Inr rows, w3) \<Rightarrow>
                    (case those (map row_first rows) of
                       None \<Rightarrow> list_db_tables_except (IndexError (str ''tuple index out of range'')) w3
                     | Some tables \<Rightarrow> (Inr (list_succeeded tables), conn_close conn1 w3)))))"

text \<open>
  A call \<open>list_db_tables(**arguments)\<close> of the tool with a mapping of arguments (its
  keys distinct). The signature has the one parameter \<open>dummy_param\<close>, without a
  default: a key that is not a parameter is refused first, then a missing
  \<open>dummy_param\<close>; either way the \<open>TypeError\<close> is raised before the body runs.
\<close>

definition unexpected_keyword :: "pystr \<Rightarrow> pystr" where
  "unexpected_keyword k =
     str ''list_db_tables() got an unexpected keyword argument '' @ quote @ k @ quote"

definition missing_dummy_param :: pystr where
  "missing_dummy_param =
     str ''list_db_tables() missing 1 required positional argument: '' @ quote @ str ''dummy_param'' @ quote"

definition call_list_db_tables ::
  "('db, 'v) sqlite3 \<Rightarrow> (pystr \<times> pystr) list \<Rightarrow> ('db, 'v) world \<Rightarrow> ('db, 'v) outcome" where
  "call_list_db_tables sq arguments w =
     (case filter (\<lambda>k. k \<noteq> str ''dummy_param'') (map fst arguments) of
        k # _ \<Rightarrow> (Inl (TypeError (unexpected_keyword k)), w)
      | [] \<Rightarrow>
          (case map_of arguments (str ''dummy_param'') of
             None \<Rightarrow> (Inl (TypeError missing_dummy_param), w)
           | Some v \<Rightarrow> list_db_tables sq v w))"

section \<open>get\_table\_schema\<close>

definition schema_sql :: "pystr \<Rightarrow> pystr" where
  "schema_sql table_name = str ''PRAGMA table_info('' @ quote @ table_name @ quote @ str '');''"

definition schema_not_found :: "pystr \<Rightarrow> pystr" where
  "schema_not_found table_name =
     str ''Table '' @ quote @ table_name @ quote @ str '' not found or no schema information.''"

definition schema_column :: "'v row \<Rightarrow> 'v jv option" where
  "schema_column r =
     (case row_getitem r (str ''name'') of
        None \<Rightarrow> None
      | Some n \<Rightarrow>
          (case row_getitem r (str ''type'') of
             None \<Rightarrow> None
           | Some t \<Rightarrow> Some (JDict [(str ''name'', JVal n), (str ''type'', JVal t)])))"

definition schema_failed :: "pystr \<Rightarrow> 'v jv" where
  "schema_failed m = JDict [(str ''success'', JBool False), (str ''message'', JStr m)]"

text \<open>The handler of \<open>get_table_schema\<close>, for \<open>sqlite3.Error\<close> and \<open>ValueError\<close>.\<close>

definition get_table_schema_except :: "pystr \<Rightarrow> exc \<Rightarrow> ('db, 'v) world \<Rightarrow> ('db, 'v) outcome" where
  "get_table_schema_except table_name e w =
     (let log = (\<lambda>m. logging_error
                  (str ''Error getting schema for table '' @ quote @ table_name @ quote @ str '': '' @ m) w)
      in case e of
           SqliteError m \<Rightarrow> (Inr (schema_failed m), log m)
         | ValueError m \<Rightarrow> (Inr (schema_failed m), log m)
         | _ \<Rightarrow> (Inl e, w))"

definition get_table_schema :: "('db, 'v) sqlite3 \<Rightarrow> pystr \<Rightarrow> ('db, 'v) world \<Rightarrow> ('db, 'v) outcome" where
  "get_table_schema sq table_name w =
     (case get_db_connection sq w of
        (Inl e, w1) \<Rightarrow> get_table_schema_except table_name e w1
      | (Inr conn, w1) \<Rightarrow>
          (case cursor_execute sq (schema_sql table_name) [] conn w1 of
             (Inl e, conn1, w2) \<Rightarrow> get_table_schema_except table_name e w2
           | (Inr cur, conn1, w2) \<Rightarrow>
               (case cursor_fetchall cur w2 of
                  (Inl e, w3) \<Rightarrow> get_table_schema_except table_name e w3
                | (Inr schema_info, w3) \<Rightarrow>
                    (let w4 = conn_close conn1 w3 in
                     if schema_info = [] then
                       get_table_schema_except table_name (ValueError (schema_not_found table_name)) w4
                     else
                       (case those (map schema_column schema_info) of
                          None \<Rightarrow> get_table_schema_except table_name (IndexError (str ''No item with that key'')) w4
                        | Some columns \<Rightarrow>
                            (Inr (JDict [(str ''table_name'', JStr table_name),
                                         (str ''columns'', JList columns)]), w4))))))"

section \<open>What a call leaves in the trace\<close>



text \<open>
  A mutating statement on a store: \<open>store_op_succeeds\<close> gives the cursor when \<open>execute\<close>
  and \<open>commit\<close> both go through; \<open>store_op_fails\<close> holds of \<open>m\<close> when one of them raises
  a \<open>sqlite3.Error\<close> with that message.
\<close>

definition store_op_succeeds ::
  "('db, 'v) sqlite3 \<Rightarrow> pystr \<Rightarrow> 'v list \<Rightarrow> 'db \<Rightarrow> ('db, 'v) cursor option" where
  "store_op_succeeds sq stmt params db =
     (case execute_result sq stmt params db of
        Inl e \<Rightarrow> None
      | Inr cur \<Rightarrow> (case commit_raises sq db (new_view cur) of None \<Rightarrow> Some cur | Some e \<Rightarrow> None))"

definition store_op_fails ::
  "('db, 'v) sqlite3 \<Rightarrow> pystr \<Rightarrow> 'v list \<Rightarrow> 'db \<Rightarrow> pystr \<Rightarrow> bool" where
  "store_op_fails sq stmt params db m =
     (case execute_result sq stmt params db of
        Inl e \<Rightarrow> e = SqliteError m
      | Inr cur \<Rightarrow> commit_raises sq db (new_view cur) = Some (SqliteError m))"

section \<open>Example stores\<close>

text \<open>
  A small store to run the tools on: the tables with the number of rows of each. It
  knows the listing of tables, and on the table \<open>items\<close> one insert, one delete, the
  query for the rows with \<open>id < 0\<close> (there are none) and the query that counts them
  (one row, holding 0); anything else is a syntax error.
\<close>

type_synonym example_db = "(pystr \<times> nat) list"

definition set_rows :: "pystr \<Rightarrow> nat \<Rightarrow> example_db \<Rightarrow> example_db" where
  "set_rows t n db = map (\<lambda>(k, c). if k = t then (k, n) else (k, c)) db"

definition example_execute :: "pystr \<Rightarrow> pystr list \<Rightarrow> example_db \<Rightarrow> exc + (example_db, pystr) cursor" where
  "example_execute stmt params db =
     (if stmt = list_tables_sql then
        Inr \<lparr>fetched = Inr (map (\<lambda>(k, c). [(str ''name'', k)]) db), rowcount = - 1, lastrowid = 0,
             new_view = db\<rparr>
      else
        (case map_of db (str ''items'') of
           None \<Rightarrow> Inl (SqliteError (str ''no such table: items''))
         | Some n \<Rightarrow>
             if stmt = insert_sql (str ''items'') [str ''name''] then
               Inr \<lparr>fetched = Inr [], rowcount = 1, lastrowid = int (Suc n),
                    new_view = set_rows (str ''items'') (Suc n) db\<rparr>
             else if stmt = delete_sql (str ''items'') (str ''id > 0'') then
               Inr \<lparr>fetched = Inr [], rowcount = int n, lastrowid = 0,
                    new_view = set_rows (str ''items'') 0 db\<rparr>
             else if stmt = query_sql (str ''items'') (str ''*'') (str ''id < 0'') then
               Inr \<lparr>fetched = Inr [], rowcount = - 1, lastrowid = 0, new_view = db\<rparr>
             else if stmt = query_sql (str ''items'') (str ''COUNT(*)'') (str ''id < 0'') then
               Inr \<lparr>fetched = Inr [[(str ''COUNT(*)'', str ''0'')]], rowcount = - 1, lastrowid = 0,
                    new_view = db\<rparr>
             else Inl (SqliteError (str ''syntax error''))))"

definition example_sq :: "(example_db, pystr) sqlite3" where
  "example_sq =
     \<lparr>connect_raises = (\<lambda>db. None), execute_result = example_execute,
      commit_raises = (\<lambda>db v. None), rollback_raises = (\<lambda>db v. None)\<rparr>"

text \<open>A database file that is not a database: connecting works, every statement fails.\<close>

definition corrupt_sq :: "(example_db, pystr) sqlite3" where
  "corrupt_sq =
     \<lparr>connect_raises = (\<lambda>db. None),
      execute_result = (\<lambda>stmt params db. Inl (SqliteError (str ''file is not a database''))),
      commit_raises = (\<lambda>db v. None), rollback_raises = (\<lambda>db v. None)\<rparr>"

text \<open>
  A database file with a damaged page: connecting works and a statement starts, but
  reading its rows fails.
\<close>

definition damaged_sq :: "(example_db, pystr) sqlite3" where
  "damaged_sq =
     \<lparr>connect_raises = (\<lambda>db. None),
      execute_result = (\<lambda>stmt params db.
        Inr \<lparr>fetched = Inl (SqliteError (str ''database disk image is malformed'')),
             rowcount = - 1, lastrowid = 0, new_view = db\<rparr>),
      commit_raises = (\<lambda>db v. None), rollback_raises = (\<lambda>db v. None)\<rparr>"

definition example_world :: "example_db \<Rightarrow> (example_db, pystr) world" where
  "example_world db = \<lparr>store = db, open_conns = 0, trace = [], logged = []\<rparr>"

section \<open>Facts about strings and the library\<close>

lemmas sql_texts = list_tables_sql_def insert_sql_def delete_sql_def query_sql_def schema_sql_def
  str_def quote_def

lemmas library_calls = get_db_connection_def cursor_execute_def cursor_fetchall_def conn_commit_def
  conn_rollback_def conn_close_def logging_error_def emit_def

lemma dropWhile_all_iff: "(\<forall>x\<in>set (dropWhile P s). P x) \<longleftrightarrow> (\<forall>x\<in>set s. P x)"
proof
  assume a: "\<forall>x\<in>set (dropWhile P s). P x"
  have "dropWhile P s = []"
  proof (rule ccontr)
    assume n: "dropWhile P s \<noteq> []"
    then have "\<not> P (hd (dropWhile P s))" by (rule hd_dropWhile)
    moreover from n have "hd (dropWhile P s) \<in> set (dropWhile P s)" by simp
    ultimately show False using a by blast
  qed
  then show "\<forall>x\<in>set s. P x" by simp
next
  assume "\<forall>x\<in>set s. P x"
  then show "\<forall>x\<in>set (dropWhile P s). P x" by (blast dest: set_dropWhileD)
qed

text \<open>\<open>strip()\<close> leaves nothing exactly of the strings made of whitespace only.\<close>

lemma strip_empty_iff: "strip s = [] \<longleftrightarrow> list_all py_isspace s"
  by (simp add: strip_def list_all_iff dropWhile_all_iff)



text \<open>The example store at work.\<close>

lemma example_list_empty:
  "example_execute list_tables_sql [] []
     = Inr \<lparr>fetched = Inr [], rowcount = - 1, lastrowid = 0, new_view = []\<rparr>"
  by (simp add: example_execute_def)

lemma example_query_none:
  "example_execute (query_sql (str ''items'') (str ''*'') (str ''id < 0'')) [] [(str ''items'', 2)]
     = Inr \<lparr>fetched = Inr [], rowcount = - 1, lastrowid = 0, new_view = [(str ''items'', 2)]\<rparr>"
  by (simp add: example_execute_def sql_texts)

lemma example_query_malformed:
  "example_execute (query_sql (str ''items'') (str ''*'') (str ''id <'')) [] [(str ''items'', 2)]
     = Inl (SqliteError (str ''syntax error''))"
  by (simp add: example_execute_def sql_texts)

lemma example_insert:
  "example_execute (insert_sql (str ''items'') [str ''name'']) [str ''x''] [(str ''items'', 2)]
     = Inr \<lparr>fetched = Inr [], rowcount = 1, lastrowid = 3, new_view = [(str ''items'', 3)]\<rparr>"
  by (simp add: example_execute_def sql_texts set_rows_def)

lemma example_insert_unknown:
  "example_execute (insert_sql (str ''nope'') [str ''name'']) [str ''x''] [(str ''items'', 2)]
     = Inl (SqliteError (str ''syntax error''))"
  by (simp add: example_execute_def sql_texts)

lemma example_delete:
  "example_execute (delete_sql (str ''items'') (str ''id > 0'')) [] [(str ''items'', 2)]
     = Inr \<lparr>fetched = Inr [], rowcount = 2, lastrowid = 0, new_view = [(str ''items'', 0)]\<rparr>"
  by (simp add: example_execute_def sql_texts set_rows_def)

lemma example_delete_malformed:
  "example_execute (delete_sql (str ''items'') (str ''id >'')) [] [(str ''items'', 2)]
     = Inl (SqliteError (str ''syntax error''))"
  by (simp add: example_execute_def sql_texts)

lemma example_schema_malformed:
  "example_execute (schema_sql (str ''a'' @ quote @ str ''b'')) [] [(str ''items'', 0)]
     = Inl (SqliteError (str ''syntax error''))"
  by (simp add: example_execute_def sql_texts)

section \<open>The guards of delete\_data and insert\_data\<close>

lemma delete_rejected_not_store_error: "(delete_rejected :: 'v jv) \<noteq> delete_failed table_name m"
  by (simp add: delete_rejected_def delete_failed_def delete_error_message_def str_def)

text \<open>
  C1. For every table name and every condition that is empty or made of whitespace
  only, \<open>delete_data\<close> returns its failure result for a rejected argument and leaves
  the world as it was: no call to the library is added to the trace (no connection
  is acquired, no statement executed), no connection is open that was not, and the
  store is the same, so every table has the rows it had. The result is not one of
  the failures that report an error of the store.
\<close>

theorem delete_data_blank_condition_rejected:
  fixes sq :: "('db, 'v) sqlite3"
  assumes "list_all py_isspace condition"
  shows "delete_data sq table_name condition w = (Inr delete_rejected, w) \<and>
         trace (snd (delete_data sq table_name condition w)) = trace w \<and>
         open_conns (snd (delete_data sq table_name condition w)) = open_conns w \<and>
         store (snd (delete_data sq table_name condition w)) = store w \<and>
         (\<forall>m. (delete_rejected :: 'v jv) \<noteq> delete_failed table_name m)"
  using assms by (simp add: delete_data_def strip_empty_iff delete_rejected_not_store_error)

theorem delete_data_blank_condition_rejected_witness:
  "list_all py_isspace (str ''  '') \<and>
   delete_data example_sq (str ''items'') (str ''  '') (example_world [(str ''items'', 3)])
     = (Inr delete_rejected, example_world [(str ''items'', 3)])"
proof -
  have h: "list_all py_isspace (str ''  '')"
    by (simp add: str_def py_isspace_def)
  show ?thesis
    using h delete_data_blank_condition_rejected
      [OF h, of example_sq "str ''items''" "example_world [(str ''items'', 3)]"]
    by blast
qed

text \<open>
  C9. For every table name, \<open>insert_data\<close> with an empty mapping returns the failure
  result with the message "No data provided for insertion." and leaves the world as
  it was: nothing is added to the trace (no connection, no statement) and the store
  is the same.
\<close>

theorem insert_data_empty_rejected:
  "insert_data sq table_name [] w = (Inr insert_rejected, w) \<and>
   (insert_rejected :: 'v jv) =
     JDict [(str ''success'', JBool False), (str ''message'', JStr (str ''No data provided for insertion.''))]"
  by (simp add: insert_data_def insert_rejected_def)

theorem insert_data_empty_rejected_witness:
  "insert_data example_sq (str ''items'') [] (example_world [(str ''items'', 3)])
     = (Inr insert_rejected, example_world [(str ''items'', 3)])"
  using insert_data_empty_rejected [of example_sq "str ''items''" "example_world [(str ''items'', 3)]"]
  by blast

section \<open>list\_db\_tables\<close>



text \<open>
  C2 as stated fails: the tool has the required parameter \<open>dummy_param\<close>, so a call
  with no arguments does not reach the body, on the empty store or any other, and
  returns no listing.
\<close>

theorem call_without_arguments_counterexample:
  "fst (call_list_db_tables example_sq [] (example_world []))
     = Inl (TypeError (str ''list_db_tables() missing 1 required positional argument: ''
                         @ quote @ str ''dummy_param'' @ quote)) \<and>
   fst (call_list_db_tables example_sq [] (example_world [])) \<noteq> Inr (list_succeeded [])"
  by (simp add: call_list_db_tables_def missing_dummy_param_def)

text \<open>
  C2, amended. Calling \<open>list_db_tables\<close> with any string for its one parameter
  \<open>dummy_param\<close>, on a store that can be opened and whose listing of tables yields
  no row (an empty store), succeeds: the result has \<open>success\<close> true and the empty
  list of table names.
\<close>

theorem list_db_tables_empty_store:
  fixes sq :: "('db, 'v) sqlite3"
  assumes "connect_raises sq (store w) = None"
    and "execute_result sq list_tables_sql [] (store w) = Inr cur"
    and "fetched cur = Inr []"
  shows "fst (call_list_db_tables sq [(str ''dummy_param'', s)] w) = Inr (list_succeeded []) \<and>
         (list_succeeded [] :: 'v jv) =
            JDict [(str ''success'', JBool True),
                   (str ''message'', JStr (str ''Tables listed successfully.'')),
                   (str ''tables'', JList [])]"
  using assms
  by (simp add: call_list_db_tables_def list_db_tables_def get_db_connection_def cursor_execute_def
      cursor_fetchall_def list_succeeded_def)

theorem list_db_tables_empty_store_witness:
  "connect_raises example_sq (store (example_world [])) = None \<and>
   execute_result example_sq list_tables_sql [] (store (example_world []))
     = Inr \<lparr>fetched = Inr [], rowcount = - 1, lastrowid = 0, new_view = []\<rparr> \<and>
   fst (call_list_db_tables example_sq [(str ''dummy_param'', str ''x'')] (example_world []))
     = Inr (list_succeeded [])"
proof -
  let ?w = "example_world []"
  let ?cur = "\<lparr>fetched = Inr [], rowcount = - 1, lastrowid = 0, new_view = []\<rparr>
                :: (example_db, pystr) cursor"
  have c: "connect_raises example_sq (store ?w) = None"
    by (simp add: example_sq_def)
  have e: "execute_result example_sq list_tables_sql [] (store ?w) = Inr ?cur"
    by (simp add: example_sq_def example_world_def example_list_empty)
  have f: "fetched ?cur = Inr []"
    by simp
  from list_db_tables_empty_store [OF c e f, of "str ''x''"] c e show ?thesis
    by blast
qed

section \<open>query\_db\_table\<close>

lemma example_count_none:
  "example_execute (query_sql (str ''items'') (str ''COUNT(*)'') (str ''id < 0'')) [] [(str ''items'', 2)]
     = Inr \<lparr>fetched = Inr [[(str ''COUNT(*)'', str ''0'')]], rowcount = - 1, lastrowid = 0,
            new_view = [(str ''items'', 2)]\<rparr>"
  by (simp add: example_execute_def sql_texts)

lemma query_db_table_fetches:
  assumes "connect_raises sq (store w) = None"
    and "execute_result sq (query_sql t cols cond) [] (store w) = Inr cur"
    and "fetched cur = Inr rows"
  shows "fst (query_db_table sq t cols cond w) = Inr (JList (map dict_row rows))"
  using assms
  by (simp add: query_db_table_def query_db_table_try_def library_calls)

text \<open>
  C7 as stated fails: a condition that matches no rows does not make the result
  empty, since the column list is free text. On the table \<open>items\<close> no row has
  \<open>id < 0\<close>: the query for all columns returns the empty list, and the query for
  \<open>COUNT(*)\<close> with the same condition returns a list of one row.
\<close>

theorem query_count_counterexample:
  "fst (query_db_table example_sq (str ''items'') (str ''*'') (str ''id < 0'')
          (example_world [(str ''items'', 2)])) = Inr (JList []) \<and>
   fst (query_db_table example_sq (str ''items'') (str ''COUNT(*)'') (str ''id < 0'')
          (example_world [(str ''items'', 2)]))
     = Inr (JList [JDict [(str ''COUNT(*)'', JVal (str ''0''))]]) \<and>
   fst (query_db_table example_sq (str ''items'') (str ''COUNT(*)'') (str ''id < 0'')
          (example_world [(str ''items'', 2)])) \<noteq> Inr (JList [])"
proof -
  let ?w = "example_world [(str ''items'', 2)]"
  have c: "connect_raises example_sq (store ?w) = None"
    by (simp add: example_sq_def)
  have e1: "execute_result example_sq (query_sql (str ''items'') (str ''*'') (str ''id < 0'')) [] (store ?w)
              = Inr \<lparr>fetched = Inr [], rowcount = - 1, lastrowid = 0, new_view = [(str ''items'', 2)]\<rparr>"
    by (simp add: example_sq_def example_world_def example_query_none)
  have e2: "execute_result example_sq (query_sql (str ''items'') (str ''COUNT(*)'') (str ''id < 0'')) []
              (store ?w)
              = Inr \<lparr>fetched = Inr [[(str ''COUNT(*)'', str ''0'')]], rowcount = - 1, lastrowid = 0,
                     new_view = [(str ''items'', 2)]\<rparr>"
    by (simp add: example_sq_def example_world_def example_count_none)
  have d: "dict_row [(str ''COUNT(*)'', str ''0'')] = JDict [(str ''COUNT(*)'', JVal (str ''0''))]"
    by (simp add: dict_row_def dict_set_def equal_ignore_case_def)
  have r1: "fst (query_db_table example_sq (str ''items'') (str ''*'') (str ''id < 0'') ?w) = Inr (JList [])"
    using query_db_table_fetches [OF c e1] by simp
  have r2: "fst (query_db_table example_sq (str ''items'') (str ''COUNT(*)'') (str ''id < 0'') ?w)
              = Inr (JList [JDict [(str ''COUNT(*)'', JVal (str ''0''))]])"
    using query_db_table_fetches [OF c e2] d by simp
  from r1 r2 show ?thesis
    by simp
qed

text \<open>
  C7, amended. On a store that can be opened: when the statement of a query runs and
  yields no row, \<open>query_db_table\<close> returns the empty list of rows, not a failure;
  when \<open>execute\<close> or \<open>fetchall\<close> raises an error of the store, it returns the list
  holding one failure dictionary with the message of the error. The two differ, so
  an empty result is told apart from a failure of the store.
\<close>

theorem query_empty_result_is_success:
  fixes sq :: "('db, 'v) sqlite3"
  assumes "connect_raises sq (store w) = None"
  shows "(execute_result sq (query_sql t cols cond) [] (store w) = Inr cur \<and> fetched cur = Inr []
            \<longrightarrow> fst (query_db_table sq t cols cond w) = Inr (JList [])) \<and>
         (execute_result sq (query_sql t cols cond) [] (store w) = Inl (SqliteError m)
            \<longrightarrow> fst (query_db_table sq t cols cond w) = Inr (query_failed t m)) \<and>
         (execute_result sq (query_sql t cols cond) [] (store w) = Inr cur \<and>
          fetched cur = Inl (SqliteError m)
            \<longrightarrow> fst (query_db_table sq t cols cond w) = Inr (query_failed t m)) \<and>
         (JList [] :: 'v jv) \<noteq> query_failed t m \<and>
         (query_failed t m :: 'v jv) =
            JList [JDict [(str ''success'', JBool False),
                          (str ''message'', JStr (str ''Error querying table '' @ quote @ t @ quote
                                                    @ str '': '' @ m))]]"
  using assms
  by (simp add: query_db_table_def get_db_connection_def query_db_table_try_def cursor_execute_def
      cursor_fetchall_def query_db_table_except_def query_failed_def query_error_message_def)

theorem query_empty_result_is_success_witness:
  "connect_raises example_sq (store (example_world [(str ''items'', 2)])) = None \<and>
   connect_raises damaged_sq (store (example_world [(str ''items'', 2)])) = None \<and>
   fst (query_db_table example_sq (str ''items'') (str ''*'') (str ''id < 0'')
          (example_world [(str ''items'', 2)])) = Inr (JList []) \<and>
   fst (query_db_table example_sq (str ''items'') (str ''*'') (str ''id <'')
          (example_world [(str ''items'', 2)]))
     = Inr (query_failed (str ''items'') (str ''syntax error'')) \<and>
   fst (query_db_table damaged_sq (str ''items'') (str ''*'') (str ''id < 0'')
          (example_world [(str ''items'', 2)]))
     = Inr (query_failed (str ''items'') (str ''database disk image is malformed''))"
proof -
  let ?w = "example_world [(str ''items'', 2)]"
  let ?dc = "\<lparr>fetched = Inl (SqliteError (str ''database disk image is malformed'')),
               rowcount = - 1, lastrowid = 0, new_view = [(str ''items'', 2)]\<rparr>
               :: (example_db, pystr) cursor"
  have c: "connect_raises example_sq (store ?w) = None"
    by (simp add: example_sq_def)
  have c': "connect_raises damaged_sq (store ?w) = None"
    by (simp add: damaged_sq_def)
  have e1: "execute_result example_sq (query_sql (str ''items'') (str ''*'') (str ''id < 0'')) [] (store ?w)
              = Inr \<lparr>fetched = Inr [], rowcount = - 1, lastrowid = 0, new_view = [(str ''items'', 2)]\<rparr>"
    by (simp add: example_sq_def example_world_def example_query_none)
  have e2: "execute_result example_sq (query_sql (str ''items'') (str ''*'') (str ''id <'')) [] (store ?w)
              = Inl (SqliteError (str ''syntax error''))"
    by (simp add: example_sq_def example_world_def example_query_malformed)
  have e3: "execute_result damaged_sq (query_sql (str ''items'') (str ''*'') (str ''id < 0'')) [] (store ?w)
              = Inr ?dc"
    by (simp add: damaged_sq_def example_world_def)
  from query_empty_result_is_success
         [OF c, of "str ''items''" "str ''*''" "str ''id < 0''"
            "\<lparr>fetched = Inr [], rowcount = - 1, lastrowid = 0, new_view = [(str ''items'', 2)]\<rparr>"
            "str ''x''"] e1
  have r1: "fst (query_db_table example_sq (str ''items'') (str ''*'') (str ''id < 0'') ?w) = Inr (JList [])"
    by simp
  from query_empty_result_is_success
         [OF c, of "str ''items''" "str ''*''" "str ''id <''" _ "str ''syntax error''"] e2
  have r2: "fst (query_db_table example_sq (str ''items'') (str ''*'') (str ''id <'') ?w)
              = Inr (query_failed (str ''items'') (str ''syntax error''))"
    by simp
  from query_empty_result_is_success
         [OF c', of "str ''items''" "str ''*''" "str ''id < 0''" ?dc
            "str ''database disk image is malformed''"] e3
  have r3: "fst (query_db_table damaged_sq (str ''items'') (str ''*'') (str ''id < 0'') ?w)
              = Inr (query_failed (str ''items'') (str ''database disk image is malformed''))"
    by simp
  from c c' r1 r2 r3 show ?thesis
    by blast
qed

section \<open>Releasing the connection\<close>

text \<open>
  \<open>query_db_table\<close>, \<open>insert_data\<close> and \<open>delete_data\<close> close the connection in a
  \<open>finally\<close>: whatever the library does, as many connections are open after the call
  as before it.
\<close>

lemma query_db_table_releases:
  "open_conns (snd (query_db_table sq table_name columns condition w)) = open_conns w"
  by (simp add: query_db_table_def query_db_table_try_def query_db_table_except_def library_calls
      split: option.splits sum.splits exc.splits prod.splits)

lemma insert_data_releases:
  "open_conns (snd (insert_data sq table_name data w)) = open_conns w"
  by (simp add: insert_data_def insert_data_try_def insert_data_except_def library_calls
      split: option.splits sum.splits exc.splits prod.splits)

lemma delete_data_releases:
  "open_conns (snd (delete_data sq table_name condition w)) = open_conns w"
  by (simp add: delete_data_def delete_data_try_def delete_data_except_def library_calls
      split: option.splits sum.splits exc.splits prod.splits)

text \<open>
  \<open>list_db_tables\<close> and \<open>get_table_schema\<close> close the connection as a statement of
  the \<open>try\<close> body: when \<open>execute\<close> raises, the handler returns with the connection
  still open.
\<close>

lemma list_db_tables_error_keeps_connection:
  assumes "connect_raises sq (store w) = None"
    and "execute_result sq list_tables_sql [] (store w) = Inl e"
  shows "open_conns (snd (list_db_tables sq dummy_param w)) = Suc (open_conns w)"
  using assms
  by (simp add: list_db_tables_def list_db_tables_except_def library_calls split: exc.splits)

lemma get_table_schema_error_keeps_connection:
  assumes "connect_raises sq (store w) = None"
    and "execute_result sq (schema_sql table_name) [] (store w) = Inl e"
  shows "open_conns (snd (get_table_schema sq table_name w)) = Suc (open_conns w)"
  using assms
  by (simp add: get_table_schema_def get_table_schema_except_def library_calls Let_def
      split: exc.splits)

text \<open>
  C3. Every connection acquired during a call is to be released before the call
  returns, on every exit path. The code does not do so on the error path of
  \<open>list_db_tables\<close> and of \<open>get_table_schema\<close>: on a database file that is not a
  database, \<open>list_db_tables\<close> returns its failure result after \<open>connect\<close> and
  \<open>execute\<close> and no \<open>close\<close>, one connection open; \<open>get_table_schema\<close> of the table
  name \<open>a'b\<close>, whose statement is a syntax error, does the same.
\<close>

theorem error_path_leaves_connection_open:
  "list_db_tables corrupt_sq (str ''x'') (example_world [])
     = (Inr (list_failed (str ''file is not a database'')),
        \<lparr>store = [], open_conns = 1, trace = [EConnect, EExecute list_tables_sql []],
         logged = [str ''Error listing tables: '' @ str ''file is not a database'']\<rparr>) \<and>
   get_table_schema example_sq (str ''a'' @ quote @ str ''b'') (example_world [(str ''items'', 0)])
     = (Inr (schema_failed (str ''syntax error'')),
        \<lparr>store = [(str ''items'', 0)], open_conns = 1,
         trace = [EConnect, EExecute (schema_sql (str ''a'' @ quote @ str ''b'')) []],
         logged = [str ''Error getting schema for table '' @ quote @ (str ''a'' @ quote @ str ''b'') @ quote
                     @ str '': '' @ str ''syntax error'']\<rparr>)"
proof -
  have a: "list_db_tables corrupt_sq (str ''x'') (example_world [])
     = (Inr (list_failed (str ''file is not a database'')),
        \<lparr>store = [], open_conns = 1, trace = [EConnect, EExecute list_tables_sql []],
         logged = [str ''Error listing tables: '' @ str ''file is not a database'']\<rparr>)"
    by (simp add: list_db_tables_def list_db_tables_except_def library_calls corrupt_sq_def
        example_world_def)
  have b: "get_table_schema example_sq (str ''a'' @ quote @ str ''b'') (example_world [(str ''items'', 0)])
     = (Inr (schema_failed (str ''syntax error'')),
        \<lparr>store = [(str ''items'', 0)], open_conns = 1,
         trace = [EConnect, EExecute (schema_sql (str ''a'' @ quote @ str ''b'')) []],
         logged = [str ''Error getting schema for table '' @ quote @ (str ''a'' @ quote @ str ''b'') @ quote
                     @ str '': '' @ str ''syntax error'']\<rparr>)"
    by (simp add: get_table_schema_def get_table_schema_except_def library_calls example_sq_def
        example_world_def example_schema_malformed)
  from a b show ?thesis
    by (rule conjI)
qed

section \<open>Statement texts and bindings\<close>






















section \<open>Commit and rollback\<close>

lemma insert_data_commits:
  assumes "connect_raises sq (store w) = None" and "data \<noteq> []"
    and "store_op_succeeds sq (insert_sql table_name (map fst data)) (map snd data) (store w) = Some cur"
  shows "insert_data sq table_name data w =
           (Inr (insert_succeeded (lastrowid cur)),
            w\<lparr>store := new_view cur,
              trace := trace w @ [EConnect, EExecute (insert_sql table_name (map fst data)) (map snd data),
                                  ECommit, EClose]\<rparr>)"
  using assms
  by (auto simp add: insert_data_def insert_data_try_def store_op_succeeds_def library_calls
      split: option.splits sum.splits)

lemma insert_data_rolls_back:
  assumes "connect_raises sq (store w) = None" and "data \<noteq> []"
    and "store_op_fails sq (insert_sql table_name (map fst data)) (map snd data) (store w) m"
    and "\<forall>v. rollback_raises sq (store w) v = None"
  shows "insert_data sq table_name data w =
           (Inr (insert_failed table_name m),
            w\<lparr>trace := trace w @ [EConnect, EExecute (insert_sql table_name (map fst data)) (map snd data)]
                        @ (case execute_result sq (insert_sql table_name (map fst data)) (map snd data) (store w)
                           of Inl e \<Rightarrow> [] | Inr c \<Rightarrow> [ECommit])
                        @ [ERollback, EClose],
              logged := logged w @ [insert_error_message table_name m]\<rparr>)"
  using assms
  by (auto simp add: insert_data_def insert_data_try_def insert_data_except_def store_op_fails_def
      library_calls split: option.splits sum.splits)

lemma delete_data_commits:
  assumes "connect_raises sq (store w) = None" and "\<not> list_all py_isspace condition"
    and "store_op_succeeds sq (delete_sql table_name condition) [] (store w) = Some cur"
  shows "delete_data sq table_name condition w =
           (Inr (delete_succeeded table_name (rowcount cur)),
            w\<lparr>store := new_view cur,
              trace := trace w @ [EConnect, EExecute (delete_sql table_name condition) [], ECommit, EClose]\<rparr>)"
  using assms
  by (auto simp add: delete_data_def delete_data_try_def store_op_succeeds_def library_calls
      strip_empty_iff split: option.splits sum.splits)

lemma delete_data_rolls_back:
  assumes "connect_raises sq (store w) = None" and "\<not> list_all py_isspace condition"
    and "store_op_fails sq (delete_sql table_name condition) [] (store w) m"
    and "\<forall>v. rollback_raises sq (store w) v = None"
  shows "delete_data sq table_name condition w =
           (Inr (delete_failed table_name m),
            w\<lparr>trace := trace w @ [EConnect, EExecute (delete_sql table_name condition) []]
                        @ (case execute_result sq (delete_sql table_name condition) [] (store w)
                           of Inl e \<Rightarrow> [] | Inr c \<Rightarrow> [ECommit])
                        @ [ERollback, EClose],
              logged := logged w @ [delete_error_message table_name m]\<rparr>)"
  using assms
  by (auto simp add: delete_data_def delete_data_try_def delete_data_except_def store_op_fails_def
      library_calls strip_empty_iff split: option.splits sum.splits)

text \<open>
  C5 as stated fails for \<open>insert_data\<close>: its success result has no count of affected
  rows. Inserting one row into a table of two affects one row; the result holds
  \<open>success\<close>, the message and \<open>row_id\<close>, the identifier 3 of the new row.
\<close>

theorem insert_data_result_counterexample:
  "fst (insert_data example_sq (str ''items'') [(str ''name'', str ''x'')]
          (example_world [(str ''items'', 2)]))
     = Inr (JDict [(str ''success'', JBool True),
                   (str ''message'', JStr (str ''Data inserted successfully. Row ID: 3'')),
                   (str ''row_id'', JInt 3)]) \<and>
   map_option rowcount
     (store_op_succeeds example_sq (insert_sql (str ''items'') [str ''name'']) [str ''x'']
        [(str ''items'', 2)]) = Some 1"
proof -
  let ?w = "example_world [(str ''items'', 2)]"
  let ?cur = "\<lparr>fetched = Inr [], rowcount = 1, lastrowid = 3, new_view = [(str ''items'', 3)]\<rparr>
                :: (example_db, pystr) cursor"
  have s: "store_op_succeeds example_sq (insert_sql (str ''items'') [str ''name'']) [str ''x'']
             [(str ''items'', 2)] = Some ?cur"
    by (simp add: store_op_succeeds_def example_sq_def example_insert)
  have c: "connect_raises example_sq (store ?w) = None"
    by (simp add: example_sq_def)
  have s': "store_op_succeeds example_sq
              (insert_sql (str ''items'') (map fst [(str ''name'', str ''x'')]))
              (map snd [(str ''name'', str ''x'')]) (store ?w) = Some ?cur"
    using s by (simp add: example_world_def)
  have "fst (insert_data example_sq (str ''items'') [(str ''name'', str ''x'')] ?w)
          = Inr (insert_succeeded 3)"
    using insert_data_commits [OF c _ s'] by simp
  moreover have "(insert_succeeded 3 :: pystr jv)
          = JDict [(str ''success'', JBool True),
                   (str ''message'', JStr (str ''Data inserted successfully. Row ID: 3'')),
                   (str ''row_id'', JInt 3)]"
    by (simp add: insert_succeeded_def py_str_int_def digits.simps str_def)
  ultimately show ?thesis
    using s by simp
qed

text \<open>
  C5, amended. On a store that can be opened, for \<open>insert_data\<close> with a mapping that
  is not empty and \<open>delete_data\<close> with a condition that is not blank: if \<open>execute\<close>
  and \<open>commit\<close> go through, the change is committed (the store becomes what the
  statement made of it), the connection is closed, and the result of \<open>delete_data\<close>
  includes the count of affected rows, that of \<open>insert_data\<close> the identifier of the
  new row; if \<open>execute\<close> or \<open>commit\<close> raises a \<open>sqlite3.Error\<close> and the rollback
  does not raise, the call rolls back and then closes the connection, the store is as
  before, and the failure is returned as a result with the message of the error.
\<close>

theorem mutating_calls_commit_or_roll_back:
  fixes sq :: "('db, 'v) sqlite3"
  assumes "connect_raises sq (store w) = None"
    and "data \<noteq> []"
    and "\<not> list_all py_isspace condition"
  shows
    "(store_op_succeeds sq (insert_sql table_name (map fst data)) (map snd data) (store w) = Some cur
        \<longrightarrow> insert_data sq table_name data w =
             (Inr (insert_succeeded (lastrowid cur)),
              w\<lparr>store := new_view cur,
                trace := trace w @ [EConnect, EExecute (insert_sql table_name (map fst data)) (map snd data),
                                    ECommit, EClose]\<rparr>)) \<and>
     (store_op_succeeds sq (delete_sql table_name condition) [] (store w) = Some cur
        \<longrightarrow> delete_data sq table_name condition w =
             (Inr (delete_succeeded table_name (rowcount cur)),
              w\<lparr>store := new_view cur,
                trace := trace w @ [EConnect, EExecute (delete_sql table_name condition) [],
                                    ECommit, EClose]\<rparr>)) \<and>
     (store_op_fails sq (insert_sql table_name (map fst data)) (map snd data) (store w) m \<and>
      (\<forall>v. rollback_raises sq (store w) v = None)
        \<longrightarrow> insert_data sq table_name data w =
             (Inr (insert_failed table_name m),
              w\<lparr>trace := trace w
                  @ [EConnect, EExecute (insert_sql table_name (map fst data)) (map snd data)]
                  @ (case execute_result sq (insert_sql table_name (map fst data)) (map snd data) (store w)
                     of Inl e \<Rightarrow> [] | Inr c \<Rightarrow> [ECommit])
                  @ [ERollback, EClose],
                logged := logged w @ [insert_error_message table_name m]\<rparr>)) \<and>
     (store_op_fails sq (delete_sql table_name condition) [] (store w) m \<and>
      (\<forall>v. rollback_raises sq (store w) v = None)
        \<longrightarrow> delete_data sq table_name condition w =
             (Inr (delete_failed table_name m),
              w\<lparr>trace := trace w
                  @ [EConnect, EExecute (delete_sql table_name condition) []]
                  @ (case execute_result sq (delete_sql table_name condition) [] (store w)
                     of Inl e \<Rightarrow> [] | Inr c \<Rightarrow> [ECommit])
                  @ [ERollback, EClose],
                logged := logged w @ [delete_error_message table_name m]\<rparr>))"
proof (intro conjI impI)
  assume "store_op_succeeds sq (insert_sql table_name (map fst data)) (map snd data) (store w) = Some cur"
  with assms(1,2) show "insert_data sq table_name data w =
             (Inr (insert_succeeded (lastrowid cur)),
              w\<lparr>store := new_view cur,
                trace := trace w @ [EConnect, EExecute (insert_sql table_name (map fst data)) (map snd data),
                                    ECommit, EClose]\<rparr>)"
    by (rule insert_data_commits)
next
  assume "store_op_succeeds sq (delete_sql table_name condition) [] (store w) = Some cur"
  with assms(1,3) show "delete_data sq table_name condition w =
             (Inr (delete_succeeded table_name (rowcount cur)),
              w\<lparr>store := new_view cur,
                trace := trace w @ [EConnect, EExecute (delete_sql table_name condition) [],
                                    ECommit, EClose]\<rparr>)"
    by (rule delete_data_commits)
next
  assume "store_op_fails sq (insert_sql table_name (map fst data)) (map snd data) (store w) m \<and>
          (\<forall>v. rollback_raises sq (store w) v = None)"
  then show "insert_data sq table_name data w =
             (Inr (insert_failed table_name m),
              w\<lparr>trace := trace w
                  @ [EConnect, EExecute (insert_sql table_name (map fst data)) (map snd data)]
                  @ (case execute_result sq (insert_sql table_name (map fst data)) (map snd data) (store w)
                     of Inl e \<Rightarrow> [] | Inr c \<Rightarrow> [ECommit])
                  @ [ERollback, EClose],
                logged := logged w @ [insert_error_message table_name m]\<rparr>)"
    using insert_data_rolls_back [OF assms(1,2)] by blast
next
  assume "store_op_fails sq (delete_sql table_name condition) [] (store w) m \<and>
          (\<forall>v. rollback_raises sq (store w) v = None)"
  then show "delete_data sq table_name condition w =
             (Inr (delete_failed table_name m),
              w\<lparr>trace := trace w
                  @ [EConnect, EExecute (delete_sql table_name condition) []]
                  @ (case execute_result sq (delete_sql table_name condition) [] (store w)
                     of Inl e \<Rightarrow> [] | Inr c \<Rightarrow> [ECommit])
                  @ [ERollback, EClose],
                logged := logged w @ [delete_error_message table_name m]\<rparr>)"
    using delete_data_rolls_back [OF assms(1,3)] by blast
qed

theorem mutating_calls_commit_or_roll_back_witness:
  "connect_raises example_sq (store (example_world [(str ''items'', 2)])) = None \<and>
   [(str ''name'', str ''x'')] \<noteq> [] \<and>
   \<not> list_all py_isspace (str ''id > 0'') \<and>
   insert_data example_sq (str ''items'') [(str ''name'', str ''x'')] (example_world [(str ''items'', 2)])
     = (Inr (insert_succeeded 3),
        (example_world [(str ''items'', 2)])
          \<lparr>store := [(str ''items'', 3)],
           trace := [EConnect, EExecute (insert_sql (str ''items'') [str ''name'']) [str ''x''],
                     ECommit, EClose]\<rparr>) \<and>
   delete_data example_sq (str ''items'') (str ''id > 0'') (example_world [(str ''items'', 2)])
     = (Inr (delete_succeeded (str ''items'') 2),
        (example_world [(str ''items'', 2)])
          \<lparr>store := [(str ''items'', 0)],
           trace := [EConnect, EExecute (delete_sql (str ''items'') (str ''id > 0'')) [],
                     ECommit, EClose]\<rparr>) \<and>
   insert_data example_sq (str ''nope'') [(str ''name'', str ''x'')] (example_world [(str ''items'', 2)])
     = (Inr (insert_failed (str ''nope'') (str ''syntax error'')),
        (example_world [(str ''items'', 2)])
          \<lparr>trace := [EConnect, EExecute (insert_sql (str ''nope'') [str ''name'']) [str ''x''],
                     ERollback, EClose],
           logged := [insert_error_message (str ''nope'') (str ''syntax error'')]\<rparr>) \<and>
   delete_data example_sq (str ''items'') (str ''id >'') (example_world [(str ''items'', 2)])
     = (Inr (delete_failed (str ''items'') (str ''syntax error'')),
        (example_world [(str ''items'', 2)])
          \<lparr>trace := [EConnect, EExecute (delete_sql (str ''items'') (str ''id >'')) [],
                     ERollback, EClose],
           logged := [delete_error_message (str ''items'') (str ''syntax error'')]\<rparr>)"
proof -
  let ?w = "example_world [(str ''items'', 2)]"
  let ?d = "[(str ''name'', str ''x'')]"
  let ?ci = "\<lparr>fetched = Inr [], rowcount = 1, lastrowid = 3, new_view = [(str ''items'', 3)]\<rparr>
               :: (example_db, pystr) cursor"
  let ?cd = "\<lparr>fetched = Inr [], rowcount = 2, lastrowid = 0, new_view = [(str ''items'', 0)]\<rparr>
               :: (example_db, pystr) cursor"
  have c: "connect_raises example_sq (store ?w) = None"
    by (simp add: example_sq_def)
  have d: "?d \<noteq> []"
    by simp
  have k1: "\<not> list_all py_isspace (str ''id > 0'')"
    by (simp add: str_def py_isspace_def)
  have k2: "\<not> list_all py_isspace (str ''id >'')"
    by (simp add: str_def py_isspace_def)
  have rb: "\<forall>v. rollback_raises example_sq (store ?w) v = None"
    by (simp add: example_sq_def)
  have tr: "trace ?w = []" and lg: "logged ?w = []"
    by (simp_all add: example_world_def)
  have si: "store_op_succeeds example_sq (insert_sql (str ''items'') (map fst ?d)) (map snd ?d) (store ?w)
              = Some ?ci"
    by (simp add: store_op_succeeds_def example_sq_def example_world_def example_insert)
  have sd: "store_op_succeeds example_sq (delete_sql (str ''items'') (str ''id > 0'')) [] (store ?w)
              = Some ?cd"
    by (simp add: store_op_succeeds_def example_sq_def example_world_def example_delete)
  have ei: "execute_result example_sq (insert_sql (str ''nope'') [str ''name'']) [str ''x''] (store ?w)
              = Inl (SqliteError (str ''syntax error''))"
    by (simp add: example_sq_def example_world_def example_insert_unknown)
  have ed: "execute_result example_sq (delete_sql (str ''items'') (str ''id >'')) [] (store ?w)
              = Inl (SqliteError (str ''syntax error''))"
    by (simp add: example_sq_def example_world_def example_delete_malformed)
  have fi: "store_op_fails example_sq (insert_sql (str ''nope'') (map fst ?d)) (map snd ?d) (store ?w)
              (str ''syntax error'')"
    by (simp add: store_op_fails_def ei)
  have fd: "store_op_fails example_sq (delete_sql (str ''items'') (str ''id >'')) [] (store ?w)
              (str ''syntax error'')"
    by (simp add: store_op_fails_def ed)
  have r1: "insert_data example_sq (str ''items'') ?d ?w
     = (Inr (insert_succeeded 3),
        ?w\<lparr>store := [(str ''items'', 3)],
           trace := [EConnect, EExecute (insert_sql (str ''items'') [str ''name'']) [str ''x''],
                     ECommit, EClose]\<rparr>)"
    using mutating_calls_commit_or_roll_back [OF c d k1, of "str ''items''" ?ci] si tr
    by simp
  have r2: "delete_data example_sq (str ''items'') (str ''id > 0'') ?w
     = (Inr (delete_succeeded (str ''items'') 2),
        ?w\<lparr>store := [(str ''items'', 0)],
           trace := [EConnect, EExecute (delete_sql (str ''items'') (str ''id > 0'')) [],
                     ECommit, EClose]\<rparr>)"
    using mutating_calls_commit_or_roll_back [OF c d k1, of "str ''items''" ?cd] sd tr
    by simp
  have r3: "insert_data example_sq (str ''nope'') ?d ?w
     = (Inr (insert_failed (str ''nope'') (str ''syntax error'')),
        ?w\<lparr>trace := [EConnect, EExecute (insert_sql (str ''nope'') [str ''name'']) [str ''x''],
                     ERollback, EClose],
           logged := [insert_error_message (str ''nope'') (str ''syntax error'')]\<rparr>)"
    using mutating_calls_commit_or_roll_back [OF c d k1, of "str ''nope''" _ "str ''syntax error''"]
      fi rb ei tr lg
    by simp
  have r4: "delete_data example_sq (str ''items'') (str ''id >'') ?w
     = (Inr (delete_failed (str ''items'') (str ''syntax error'')),
        ?w\<lparr>trace := [EConnect, EExecute (delete_sql (str ''items'') (str ''id >'')) [],
                     ERollback, EClose],
           logged := [delete_error_message (str ''items'') (str ''syntax error'')]\<rparr>)"
    using mutating_calls_commit_or_roll_back [OF c d k2, of "str ''items''" _ "str ''syntax error''"]
      fd rb ed tr lg
    by simp
  from c d k1 r1 r2 r3 r4 show ?thesis
    by blast
qed

end
